theory Spec2Isabelle
  imports Complex_Main
begin

section \<open>The trading service: data model\<close>

text \<open>
  A shallow embedding of \<^verbatim>\<open>trading-service/main.py\<close>. Scores, weights, prices and
  amounts are Python floats in the source and exact rationals here. The module's global
  handles (\<^verbatim>\<open>config\<close>, \<^verbatim>\<open>redis_client\<close>, \<^verbatim>\<open>postgres_conn\<close>, \<^verbatim>\<open>alpaca_api\<close>)
  and the external services behind them form the environment \<open>env\<close>; everything the
  functions change is in the \<open>world\<close>, which is passed through every call. An
  exception of the source is a value \<open>Inl x\<close>; every \<^verbatim>\<open>try/except Exception\<close> of
  the source is a case distinction on that value.

  Logging: the module binds \<^verbatim>\<open>logger = logging.getLogger(__name__)\<close> with the
  level \<^verbatim>\<open>INFO\<close> enabled. A call with a message alone appends the message to the log
  (\<open>logger\<close>). Most calls pass keyword fields (\<^verbatim>\<open>symbol=...\<close>,
  \<^verbatim>\<open>error=...\<close>), which the methods of the standard logger do not accept: such a call
  raises \<^verbatim>\<open>TypeError\<close> and logs nothing (\<open>logger_kw\<close>), also inside an exception
  handler, whose exception then leaves the function.

  Not modelled: wall-clock time (\<^verbatim>\<open>datetime.now()\<close>, the pause between symbols),
  floating-point rounding, and the concurrency of the scheduler with the manual
  endpoints.
\<close>

type_synonym symbol = string
type_synonym source = string

datatype exn = Error string | TypeError string

subsection \<open>Configuration\<close>

text \<open>The process-wide settings of class \<^verbatim>\<open>Config\<close> (read from the process environment).\<close>

record settings =
  cfg_max_position_size :: rat
  cfg_sentiment_threshold :: rat

text \<open>
  One entry of \<^verbatim>\<open>trading.symbols\<close> in the configuration document: a dictionary with the
  optional keys \<^verbatim>\<open>weights\<close>, \<^verbatim>\<open>sentiment_threshold\<close>, \<^verbatim>\<open>max_position_size\<close>;
  \<open>sc_other_keys\<close> lists any further keys of the dictionary. Dictionaries are
  association lists in the order of the document.
\<close>

record symbol_config =
  sc_weights :: "(source \<times> rat) list option"
  sc_sentiment_threshold :: "rat option"
  sc_max_position_size :: "rat option"
  sc_other_keys :: "string list"

text \<open>The \<^verbatim>\<open>trading\<close> object of the document, as far as the service reads it.\<close>

record trading_doc =
  sentiment_weights :: "(source \<times> rat) list option"
  symbols :: "(symbol \<times> symbol_config) list option"

definition empty_symbol_config :: symbol_config where
  "empty_symbol_config =
     \<lparr>sc_weights = None, sc_sentiment_threshold = None, sc_max_position_size = None,
      sc_other_keys = []\<rparr>"

text \<open>Python's \<^verbatim>\<open>not symbol_config\<close>: the dictionary has no key at all.\<close>

definition is_empty_config :: "symbol_config \<Rightarrow> bool" where
  "is_empty_config sc \<longleftrightarrow>
     sc_weights sc = None \<and> sc_sentiment_threshold sc = None \<and>
     sc_max_position_size sc = None \<and> sc_other_keys sc = []"

text \<open>
  The default document in the handler of \<^verbatim>\<open>load_trading_config\<close>, for a file that
  cannot be read.
\<close>

definition default_trading_doc :: trading_doc where
  "default_trading_doc =
     \<lparr>sentiment_weights = Some [(''twitter'', 4 / 10), (''reddit'', 3 / 10), (''news'', 3 / 10)],
      symbols = None\<rparr>"

subsection \<open>The sentiment cache\<close>

text \<open>
  A hash field of the cache is a byte string; \<^verbatim>\<open>float\<close> either parses it or raises
  \<^verbatim>\<open>ValueError\<close>/\<^verbatim>\<open>TypeError\<close>, which the source catches on the spot.
\<close>

datatype field = Number rat | Text string

fun float_of :: "field \<Rightarrow> rat option" where
  "float_of (Number x) = Some x"
| "float_of (Text s) = None"

type_synonym entry = "(string \<times> field) list"

record redis =
  redis_keys :: "string \<Rightarrow> exn + string list"
  redis_hgetall :: "string \<Rightarrow> exn + entry"

subsection \<open>The brokerage and the durable store\<close>

record order =
  order_id :: string
  order_status :: string

record submit_req =
  req_symbol :: symbol
  req_qty :: int
  req_side :: string

record broker_position =
  bp_symbol :: symbol
  bp_qty :: int
  bp_avg_entry_price :: rat
  bp_current_price :: rat
  bp_unrealized_pl :: rat

text \<open>
  The brokerage client. Each operation may raise; its answer may depend on the moment of
  the call, which is the clock of the world. A position whose fields do not parse makes
  \<^verbatim>\<open>get_portfolio_positions\<close> fail as a whole, like a failing \<open>list_positions\<close>.
\<close>

record alpaca =
  submit_order :: "nat \<Rightarrow> submit_req \<Rightarrow> exn + order"
  get_order :: "nat \<Rightarrow> string \<Rightarrow> exn + order"
  list_positions :: "nat \<Rightarrow> exn + broker_position list"

record portfolio_position =
  pp_symbol :: symbol
  pp_quantity :: int
  pp_average_price :: rat
  pp_current_price :: rat
  pp_total_value :: rat
  pp_unrealized_pnl :: rat

record trade =
  tr_symbol :: symbol
  tr_side :: string
  tr_quantity :: int
  tr_price :: rat
  tr_total_amount :: rat
  tr_sentiment_score :: "rat option"
  alpaca_order_id :: string
  tr_status :: string

text \<open>
  The database connection: \<open>db_error\<close> says whether a statement issued at a given
  moment fails (outage, aborted transaction).

  Modelled from the spec: the declaration of table \<^verbatim>\<open>trades\<close> is not part of the
  source; the specification declares the table unique on the broker order id. The flag
  \<open>trades_unique_order_id\<close> says whether the table carries that constraint.
\<close>

record postgres =
  db_error :: "nat \<Rightarrow> exn option"
  trades_unique_order_id :: bool

record env =
  config :: settings
  config_file :: "trading_doc option"
  redis_client :: "redis option"
  alpaca_api :: "alpaca option"
  postgres_conn :: "postgres option"
  ticker_price :: "nat \<Rightarrow> symbol \<Rightarrow> exn + rat"

text \<open>
  The operations of the service whose entry is recorded, to state in which order a cycle
  reaches them.
\<close>

datatype call =
  Aggregate symbol
| Execute symbol string int
| UpdatePositions

record world =
  clock :: nat
  trades :: "trade list"
  portfolio_positions :: "symbol \<rightharpoonup> portfolio_position"
  submitted :: "submit_req list"
  log :: "string list"
  calls :: "call list"

definition tick :: "world \<Rightarrow> world" where
  "tick w = w\<lparr>clock := Suc (clock w)\<rparr>"

definition enter :: "call \<Rightarrow> world \<Rightarrow> world" where
  "enter c w = w\<lparr>calls := calls w @ [c]\<rparr>"

subsection \<open>Sequencing, exceptions and the logger\<close>

text \<open>
  A statement of the source is a function from the world to a result and the new world.
  \<open>seq\<close> runs the next statement unless the first raised; \<open>try_except\<close> is
  \<^verbatim>\<open>try: ... except Exception as e: ...\<close>, the handler may itself raise.
\<close>

definition ret :: "'a \<Rightarrow> world \<Rightarrow> (exn + 'a) \<times> world" where
  "ret a w = (Inr a, w)"

definition seq ::
  "(world \<Rightarrow> (exn + 'a) \<times> world) \<Rightarrow> ('a \<Rightarrow> world \<Rightarrow> (exn + 'b) \<times> world)
     \<Rightarrow> world \<Rightarrow> (exn + 'b) \<times> world" where
  "seq m f w = (case m w of (Inl x, w1) \<Rightarrow> (Inl x, w1) | (Inr a, w1) \<Rightarrow> f a w1)"

definition try_except ::
  "(world \<Rightarrow> (exn + 'a) \<times> world) \<Rightarrow> (exn \<Rightarrow> world \<Rightarrow> (exn + 'a) \<times> world)
     \<Rightarrow> world \<Rightarrow> (exn + 'a) \<times> world" where
  "try_except m handler w =
     (case m w of (Inl x, w1) \<Rightarrow> handler x w1 | (Inr a, w1) \<Rightarrow> (Inr a, w1))"

text \<open>A logger call with a message alone.\<close>

definition logger :: "string \<Rightarrow> world \<Rightarrow> (exn + unit) \<times> world" where
  "logger msg w = (Inr (), w\<lparr>log := log w @ [msg]\<rparr>)"

text \<open>
  A logger call with keyword fields: \<^verbatim>\<open>Logger._log\<close> has no such parameters, the
  call raises before anything is logged.
\<close>

definition unexpected_keyword :: exn where
  "unexpected_keyword = TypeError ''Logger._log() got an unexpected keyword argument''"

definition logger_kw :: "string \<Rightarrow> world \<Rightarrow> (exn + unit) \<times> world" where
  "logger_kw msg w = (Inl unexpected_keyword, w)"

section \<open>Configuration loading\<close>

text \<open>
  \<^verbatim>\<open>load_trading_config\<close>: the document of the file, or, when the file cannot be
  read, the handler that logs (with a keyword field) and then returns the default.
\<close>

definition load_trading_config :: "env \<Rightarrow> world \<Rightarrow> (exn + trading_doc) \<times> world" where
  "load_trading_config e w =
     (case config_file e of
        Some d \<Rightarrow> (Inr d, w)
      | None \<Rightarrow>
          seq (logger_kw ''Failed to load trading config'') (\<lambda>u. ret default_trading_doc) w)"

text \<open>\<^verbatim>\<open>config_data.get("trading", {}).get("symbols", {}).get(symbol, {})\<close>\<close>

definition symbol_config_of :: "trading_doc \<Rightarrow> symbol \<Rightarrow> symbol_config" where
  "symbol_config_of d s =
     (case symbols d of
        None \<Rightarrow> empty_symbol_config
      | Some m \<Rightarrow> (case map_of m s of None \<Rightarrow> empty_symbol_config | Some sc \<Rightarrow> sc))"

section \<open>Persisting a trade\<close>

text \<open>
  The \<^verbatim>\<open>INSERT INTO trades\<close> followed by the commit. The statement fails when the
  database fails, or when the table is unique on the order id and holds a row with the
  same id; a failed statement leaves the table as it was.
\<close>

definition insert_trade :: "postgres \<Rightarrow> trade \<Rightarrow> world \<Rightarrow> (exn + unit) \<times> world" where
  "insert_trade db t w =
     (case db_error db (clock w) of
        Some x \<Rightarrow> (Inl x, tick w)
      | None \<Rightarrow>
          if trades_unique_order_id db \<and> alpaca_order_id t \<in> alpaca_order_id ` set (trades w)
          then (Inl (Error ''UniqueViolation''), tick w)
          else (Inr (), tick (w\<lparr>trades := trades w @ [t]\<rparr>)))"

definition store_trade_body ::
  "env \<Rightarrow> symbol \<Rightarrow> string \<Rightarrow> int \<Rightarrow> rat \<Rightarrow> rat \<Rightarrow> rat option \<Rightarrow> string \<Rightarrow> world
     \<Rightarrow> (exn + unit) \<times> world" where
  "store_trade_body e symbol side quantity price total_amount sentiment_score oid w =
     (case postgres_conn e of
        None \<Rightarrow> (Inr (), w)
      | Some db \<Rightarrow>
          seq (insert_trade db
                 \<lparr>tr_symbol = symbol, tr_side = side, tr_quantity = quantity, tr_price = price,
                  tr_total_amount = total_amount, tr_sentiment_score = sentiment_score,
                  alpaca_order_id = oid, tr_status = ''FILLED''\<rparr>)
              (\<lambda>u. logger_kw ''Trade stored in database'') w)"

text \<open>The \<^verbatim>\<open>try/except Exception\<close> around the body; the handler logs the error.\<close>

definition store_trade ::
  "env \<Rightarrow> symbol \<Rightarrow> string \<Rightarrow> int \<Rightarrow> rat \<Rightarrow> rat \<Rightarrow> rat option \<Rightarrow> string \<Rightarrow> world
     \<Rightarrow> (exn + unit) \<times> world" where
  "store_trade e symbol side quantity price total_amount sentiment_score oid =
     try_except
       (store_trade_body e symbol side quantity price total_amount sentiment_score oid)
       (\<lambda>x. logger_kw ''Failed to store trade'')"

text \<open>The number of rows of the trade log with a given broker order id.\<close>

definition trade_count :: "string \<Rightarrow> world \<Rightarrow> nat" where
  "trade_count oid w = length (filter (\<lambda>t. alpaca_order_id t = oid) (trades w))"

section \<open>Sentiment aggregation\<close>

text \<open>\<^verbatim>\<open>np.mean\<close> of a non-empty list of scores.\<close>

definition mean :: "rat list \<Rightarrow> rat" where
  "mean xs = sum_list xs / of_nat (length xs)"

text \<open>The key pattern \<^verbatim>\<open>f"sentiment:{symbol}:{source}:*"\<close>.\<close>

definition key_pattern :: "symbol \<Rightarrow> source \<Rightarrow> string" where
  "key_pattern symbol source = ''sentiment:'' @ symbol @ '':'' @ source @ '':*''"

text \<open>
  The inner loop over the keys of one source: an entry without a \<^verbatim>\<open>sentiment_score\<close>
  field, or with one that does not parse, is skipped; a failing \<^verbatim>\<open>hgetall\<close> raises.
\<close>

fun collect_scores :: "redis \<Rightarrow> string list \<Rightarrow> rat list \<Rightarrow> exn + rat list" where
  "collect_scores r [] source_scores = Inr source_scores"
| "collect_scores r (key # keys) source_scores =
     (case redis_hgetall r key of
        Inl x \<Rightarrow> Inl x
      | Inr entry \<Rightarrow>
          (case map_of entry ''sentiment_score'' of
             None \<Rightarrow> collect_scores r keys source_scores
           | Some v \<Rightarrow>
               (case float_of v of
                  None \<Rightarrow> collect_scores r keys source_scores
                | Some score \<Rightarrow> collect_scores r keys (source_scores @ [score]))))"

text \<open>
  The outer loop over \<^verbatim>\<open>weights.items()\<close>, with the accumulators
  \<^verbatim>\<open>total_weighted_score\<close>, \<^verbatim>\<open>total_weight\<close> and \<^verbatim>\<open>source_count\<close>.
\<close>

fun accumulate ::
  "redis \<Rightarrow> symbol \<Rightarrow> (source \<times> rat) list \<Rightarrow> rat \<times> rat \<times> nat \<Rightarrow> exn + rat \<times> rat \<times> nat" where
  "accumulate r symbol [] acc = Inr acc"
| "accumulate r symbol ((source, weight) # rest) (total_weighted_score, total_weight, source_count) =
     (case redis_keys r (key_pattern symbol source) of
        Inl x \<Rightarrow> Inl x
      | Inr keys \<Rightarrow>
          if keys = [] then
            accumulate r symbol rest (total_weighted_score, total_weight, source_count)
          else
            (case collect_scores r (take 50 keys) [] of
               Inl x \<Rightarrow> Inl x
             | Inr source_scores \<Rightarrow>
                 if source_scores = [] then
                   accumulate r symbol rest (total_weighted_score, total_weight, source_count)
                 else
                   accumulate r symbol rest
                     (total_weighted_score + mean source_scores * weight,
                      total_weight + weight, Suc source_count)))"

text \<open>
  \<^verbatim>\<open>symbol_config.get("weights", config_data.get("trading", {}).get("sentiment_weights", {}))\<close>
\<close>

definition weights_of :: "trading_doc \<Rightarrow> symbol_config \<Rightarrow> (source \<times> rat) list" where
  "weights_of d sc =
     (case sc_weights sc of
        Some ws \<Rightarrow> ws
      | None \<Rightarrow> (case sentiment_weights d of Some ws \<Rightarrow> ws | None \<Rightarrow> []))"

text \<open>
  The part of \<^verbatim>\<open>aggregate_sentiment\<close> after the configuration is loaded and the
  entry found not empty: the cache loop and the guard on the total weight.
\<close>

definition score_sources ::
  "env \<Rightarrow> symbol \<Rightarrow> (source \<times> rat) list \<Rightarrow> world \<Rightarrow> (exn + rat option) \<times> world" where
  "score_sources e symbol weights w =
     (case redis_client e of
        None \<Rightarrow> (Inr None, w)
      | Some r \<Rightarrow>
          (case accumulate r symbol weights (0, 0, 0) of
             Inl x \<Rightarrow> (Inl x, w)
           | Inr (total_weighted_score, total_weight, source_count) \<Rightarrow>
               if total_weight > 0 then
                 seq (logger_kw ''Sentiment aggregated'')
                     (\<lambda>u. ret (Some (total_weighted_score / total_weight))) w
               else (Inr None, w)))"

definition aggregate_sentiment_body :: "env \<Rightarrow> symbol \<Rightarrow> world \<Rightarrow> (exn + rat option) \<times> world" where
  "aggregate_sentiment_body e symbol =
     seq (load_trading_config e)
       (\<lambda>config_data.
          if is_empty_config (symbol_config_of config_data symbol) then
            seq (logger_kw ''No configuration found for symbol'') (\<lambda>u. ret None)
          else
            score_sources e symbol
              (weights_of config_data (symbol_config_of config_data symbol)))"

definition aggregate_sentiment :: "env \<Rightarrow> symbol \<Rightarrow> world \<Rightarrow> (exn + rat option) \<times> world" where
  "aggregate_sentiment e symbol w =
     try_except (aggregate_sentiment_body e symbol)
       (\<lambda>x. seq (logger_kw ''Failed to aggregate sentiment'') (\<lambda>u. ret None))
       (enter (Aggregate symbol) w)"

section \<open>Order execution\<close>

text \<open>\<^verbatim>\<open>str.lower\<close> on the letters A to Z.\<close>

definition lower_char :: "char \<Rightarrow> char" where
  "lower_char c =
     (let n = (of_char c :: nat) in if 65 \<le> n \<and> n \<le> 90 then char_of (n + 32) else c)"

definition lower :: "string \<Rightarrow> string" where
  "lower s = map lower_char s"

text \<open>\<^verbatim>\<open>symbol_config.get("max_position_size", config.max_position_size)\<close>\<close>

definition max_position_size_of :: "env \<Rightarrow> symbol_config \<Rightarrow> rat" where
  "max_position_size_of e sc =
     (case sc_max_position_size sc of
        Some m \<Rightarrow> m
      | None \<Rightarrow> cfg_max_position_size (config e))"

text \<open>
  The order is sent and its status asked for; then the trade is stored and the success
  logged. Every request sent to \<^verbatim>\<open>submit_order\<close> is recorded in \<open>submitted\<close>,
  whether the brokerage accepts it or raises.
\<close>

definition submit_and_store ::
  "env \<Rightarrow> alpaca \<Rightarrow> symbol \<Rightarrow> string \<Rightarrow> int \<Rightarrow> rat \<Rightarrow> rat \<Rightarrow> rat option \<Rightarrow> world
     \<Rightarrow> (exn + order option) \<times> world" where
  "submit_and_store e api symbol side quantity current_price total_amount sentiment_score w2 =
     (let req = \<lparr>req_symbol = symbol, req_qty = quantity, req_side = lower side\<rparr>;
          w3 = tick (w2\<lparr>submitted := submitted w2 @ [req]\<rparr>)
      in case submit_order api (clock w2) req of
           Inl x \<Rightarrow> (Inl x, w3)
         | Inr ord \<Rightarrow>
             (case get_order api (clock w3) (order_id ord) of
                Inl x \<Rightarrow> (Inl x, tick w3)
              | Inr status \<Rightarrow>
                  seq (store_trade e symbol side quantity current_price total_amount
                         sentiment_score (order_id ord))
                    (\<lambda>u. seq (logger_kw ''Trade executed successfully'')
                            (\<lambda>u. ret (Some status)))
                    (tick w3)))"

text \<open>
  The body of the \<^verbatim>\<open>try\<close> in \<^verbatim>\<open>execute_trade\<close>. The price is fetched anew; a missing
  price reads as 0.
\<close>

definition execute_trade_body ::
  "env \<Rightarrow> alpaca \<Rightarrow> symbol \<Rightarrow> string \<Rightarrow> int \<Rightarrow> rat option \<Rightarrow> world
     \<Rightarrow> (exn + order option) \<times> world" where
  "execute_trade_body e api symbol side quantity sentiment_score w =
     (case ticker_price e (clock w) symbol of
        Inl x \<Rightarrow> (Inl x, tick w)
      | Inr current_price \<Rightarrow>
          if current_price = 0 then
            seq (logger_kw ''Unable to get current price'') (\<lambda>u. ret None) (tick w)
          else
            seq (load_trading_config e)
              (\<lambda>config_data.
                 if of_int quantity * current_price >
                      max_position_size_of e (symbol_config_of config_data symbol)
                 then seq (logger_kw ''Trade exceeds max position size'') (\<lambda>u. ret None)
                 else submit_and_store e api symbol side quantity current_price
                        (of_int quantity * current_price) sentiment_score)
              (tick w))"

definition execute_trade ::
  "env \<Rightarrow> symbol \<Rightarrow> string \<Rightarrow> int \<Rightarrow> rat option \<Rightarrow> world \<Rightarrow> (exn + order option) \<times> world" where
  "execute_trade e symbol side quantity sentiment_score w =
     (case alpaca_api e of
        None \<Rightarrow>
          seq (logger ''Alpaca API not available'') (\<lambda>u. ret None)
            (enter (Execute symbol side quantity) w)
      | Some api \<Rightarrow>
          try_except (execute_trade_body e api symbol side quantity sentiment_score)
            (\<lambda>x. seq (logger_kw ''Trade execution failed'') (\<lambda>u. ret None))
            (enter (Execute symbol side quantity) w))"

section \<open>Portfolio positions\<close>

definition to_portfolio_position :: "broker_position \<Rightarrow> portfolio_position" where
  "to_portfolio_position p =
     \<lparr>pp_symbol = bp_symbol p, pp_quantity = bp_qty p,
      pp_average_price = bp_avg_entry_price p, pp_current_price = bp_current_price p,
      pp_total_value = of_int (bp_qty p) * bp_current_price p,
      pp_unrealized_pnl = bp_unrealized_pl p\<rparr>"

definition get_portfolio_positions ::
  "env \<Rightarrow> world \<Rightarrow> (exn + portfolio_position list) \<times> world" where
  "get_portfolio_positions e =
     try_except
       (\<lambda>w. case alpaca_api e of
               None \<Rightarrow> (Inr [], w)
             | Some api \<Rightarrow>
                 (case list_positions api (clock w) of
                    Inl x \<Rightarrow> (Inl x, tick w)
                  | Inr positions \<Rightarrow> (Inr (map to_portfolio_position positions), tick w)))
       (\<lambda>x. seq (logger_kw ''Failed to get portfolio positions'') (\<lambda>u. ret []))"

text \<open>
  The upserts of one reconciliation pass are committed together: a failing statement
  leaves the mirror as it was.
\<close>

definition upsert_position ::
  "(symbol \<rightharpoonup> portfolio_position) \<Rightarrow> portfolio_position \<Rightarrow> (symbol \<rightharpoonup> portfolio_position)" where
  "upsert_position m p = m(pp_symbol p \<mapsto> p)"

definition upsert_positions ::
  "env \<Rightarrow> portfolio_position list \<Rightarrow> world \<Rightarrow> (exn + unit) \<times> world" where
  "upsert_positions e positions w1 =
     (case postgres_conn e of
        None \<Rightarrow> (Inr (), w1)
      | Some db \<Rightarrow>
          (case db_error db (clock w1) of
             Some x \<Rightarrow> (Inl x, tick w1)
           | None \<Rightarrow>
               logger_kw ''Portfolio positions updated''
                 (tick (w1\<lparr>portfolio_positions :=
                             foldl upsert_position (portfolio_positions w1) positions\<rparr>))))"

definition update_portfolio_positions :: "env \<Rightarrow> world \<Rightarrow> (exn + unit) \<times> world" where
  "update_portfolio_positions e w =
     try_except (seq (get_portfolio_positions e) (upsert_positions e))
       (\<lambda>x. logger_kw ''Failed to update portfolio positions'')
       (enter UpdatePositions w)"

section \<open>The trading cycle\<close>

text \<open>Python's \<^verbatim>\<open>int\<close> on a float: truncation towards zero.\<close>

definition python_int :: "rat \<Rightarrow> int" where
  "python_int x = (if 0 \<le> x then \<lfloor>x\<rfloor> else \<lceil>x\<rceil>)"

text \<open>\<^verbatim>\<open>symbol_config.get("sentiment_threshold", config.sentiment_threshold)\<close>\<close>

definition sentiment_threshold_of :: "env \<Rightarrow> symbol_config \<Rightarrow> rat" where
  "sentiment_threshold_of e sc =
     (case sc_sentiment_threshold sc of
        Some t \<Rightarrow> t
      | None \<Rightarrow> cfg_sentiment_threshold (config e))"

text \<open>
  The body of the \<^verbatim>\<open>try\<close> inside the loop over the symbols, from the aggregated score
  on. \<open>config_data\<close> is the document loaded at the start of the cycle and
  \<open>current_positions\<close> the positions fetched then.
\<close>

definition trade_on_sentiment ::
  "env \<Rightarrow> trading_doc \<Rightarrow> portfolio_position list \<Rightarrow> symbol \<Rightarrow> rat \<Rightarrow> world
     \<Rightarrow> (exn + unit) \<times> world" where
  "trade_on_sentiment e config_data current_positions symbol sentiment_score w =
     (let symbol_config = symbol_config_of config_data symbol;
          sentiment_threshold = sentiment_threshold_of e symbol_config
      in if sentiment_score > sentiment_threshold then
           (if symbol \<notin> pp_symbol ` set current_positions then
              let max_position_size = max_position_size_of e symbol_config
              in case ticker_price e (clock w) symbol of
                   Inl x \<Rightarrow> (Inl x, tick w)
                 | Inr current_price \<Rightarrow>
                     if current_price > 0 then
                       let quantity = python_int (max_position_size / current_price)
                       in if quantity > 0 then
                            seq (execute_trade e symbol ''BUY'' quantity (Some sentiment_score))
                              (\<lambda>res. logger_kw ''Buy signal triggered'') (tick w)
                          else (Inr (), tick w)
                     else (Inr (), tick w)
            else (Inr (), w))
         else if sentiment_score < - sentiment_threshold then
           (if symbol \<in> pp_symbol ` set current_positions then
              (case find (\<lambda>pos. pp_symbol pos = symbol) current_positions of
                 None \<Rightarrow> (Inr (), w)
               | Some position \<Rightarrow>
                   if pp_quantity position > 0 then
                     seq (execute_trade e symbol ''SELL'' (pp_quantity position)
                            (Some sentiment_score))
                       (\<lambda>res. logger_kw ''Sell signal triggered'') w
                   else (Inr (), w))
            else (Inr (), w))
         else (Inr (), w))"

definition process_symbol_body ::
  "env \<Rightarrow> trading_doc \<Rightarrow> portfolio_position list \<Rightarrow> symbol \<Rightarrow> world \<Rightarrow> (exn + unit) \<times> world" where
  "process_symbol_body e config_data current_positions symbol =
     seq (aggregate_sentiment e symbol)
       (\<lambda>sentiment.
          case sentiment of
            None \<Rightarrow> ret ()
          | Some sentiment_score \<Rightarrow>
              trade_on_sentiment e config_data current_positions symbol sentiment_score)"

text \<open>One turn of the loop, with its \<^verbatim>\<open>except Exception\<close>: log, then \<^verbatim>\<open>continue\<close>.\<close>

definition process_symbol ::
  "env \<Rightarrow> trading_doc \<Rightarrow> portfolio_position list \<Rightarrow> symbol \<Rightarrow> world \<Rightarrow> (exn + unit) \<times> world" where
  "process_symbol e config_data current_positions symbol =
     try_except (process_symbol_body e config_data current_positions symbol)
       (\<lambda>x. logger_kw ''Error processing symbol'')"

fun process_symbols ::
  "env \<Rightarrow> trading_doc \<Rightarrow> portfolio_position list \<Rightarrow> symbol list \<Rightarrow> world
     \<Rightarrow> (exn + unit) \<times> world" where
  "process_symbols e config_data current_positions [] w = (Inr (), w)"
| "process_symbols e config_data current_positions (symbol # rest) w =
     seq (process_symbol e config_data current_positions symbol)
       (\<lambda>u. process_symbols e config_data current_positions rest) w"

text \<open>
  \<^verbatim>\<open>list(config_data.get("trading", {}).get("symbols", {}).keys())\<close>; the keys of a
  loaded document are distinct.
\<close>

definition configured_symbols :: "trading_doc \<Rightarrow> symbol list" where
  "configured_symbols d = (case symbols d of None \<Rightarrow> [] | Some m \<Rightarrow> map fst m)"

definition run_trading_bot_body :: "env \<Rightarrow> world \<Rightarrow> (exn + unit) \<times> world" where
  "run_trading_bot_body e =
     seq (logger ''Running trading bot iteration'')
       (\<lambda>u. seq (load_trading_config e)
          (\<lambda>config_data.
             if configured_symbols config_data = [] then
               logger ''No symbols configured for trading''
             else
               seq (get_portfolio_positions e)
                 (\<lambda>current_positions.
                    seq (process_symbols e config_data current_positions
                           (configured_symbols config_data))
                      (\<lambda>u. seq (update_portfolio_positions e)
                         (\<lambda>u. logger ''Trading bot iteration completed'')))))"

text \<open>One cycle, with the outer \<^verbatim>\<open>except Exception\<close> of the source.\<close>

definition run_trading_bot :: "env \<Rightarrow> world \<Rightarrow> (exn + unit) \<times> world" where
  "run_trading_bot e =
     try_except (run_trading_bot_body e) (\<lambda>x. logger_kw ''Trading bot failed'')"

section \<open>The specification's weighted score\<close>

text \<open>
  The score of one cache entry, and the observations fetched for one source: the
  well-formed scores among the first 50 keys the cache returns for the source. A failing
  cache request yields no observation.
\<close>

definition entry_score :: "entry \<Rightarrow> rat option" where
  "entry_score en = (case map_of en ''sentiment_score'' of None \<Rightarrow> None | Some v \<Rightarrow> float_of v)"

definition source_observations :: "redis \<Rightarrow> symbol \<Rightarrow> source \<Rightarrow> rat list" where
  "source_observations r symbol source =
     (case redis_keys r (key_pattern symbol source) of
        Inl x \<Rightarrow> []
      | Inr keys \<Rightarrow>
          List.map_filter
            (\<lambda>k. case redis_hgetall r k of Inl x \<Rightarrow> None | Inr en \<Rightarrow> entry_score en)
            (take 50 keys))"

text \<open>The cache answers every request the aggregation makes for these sources.\<close>

definition cache_answers :: "redis \<Rightarrow> symbol \<Rightarrow> (source \<times> rat) list \<Rightarrow> bool" where
  "cache_answers r symbol weights =
     list_all (\<lambda>(source, weight).
        case redis_keys r (key_pattern symbol source) of
          Inl x \<Rightarrow> False
        | Inr keys \<Rightarrow> list_all (\<lambda>k. case redis_hgetall r k of Inl x \<Rightarrow> False | Inr en \<Rightarrow> True) (take 50 keys))
       weights"

text \<open>
  The weighted score in the specification's words: over the sources that produced at
  least one observation, the sum of mean score times weight, divided by the sum of the
  weights. The argument lists the weight and the observations of every configured source.
\<close>

definition contributing :: "(rat \<times> rat list) list \<Rightarrow> (rat \<times> rat list) list" where
  "contributing xs = filter (\<lambda>(weight, obs). obs \<noteq> []) xs"

definition weighted_score :: "(rat \<times> rat list) list \<Rightarrow> rat" where
  "weighted_score xs =
     (\<Sum>(weight, obs) \<leftarrow> contributing xs. mean obs * weight) /
     (\<Sum>(weight, obs) \<leftarrow> contributing xs. weight)"

definition observed :: "redis \<Rightarrow> symbol \<Rightarrow> (source \<times> rat) list \<Rightarrow> (rat \<times> rat list) list" where
  "observed r symbol weights =
     map (\<lambda>(source, weight). (weight, source_observations r symbol source)) weights"


section \<open>Further notions of the specification\<close>

text \<open>The symbols for which a sequence of calls enters the aggregation, in order.\<close>

fun aggregated :: "call list \<Rightarrow> symbol list" where
  "aggregated [] = []"
| "aggregated (Aggregate s # cs) = s # aggregated cs"
| "aggregated (c # cs) = aggregated cs"

text \<open>
  The size of a buy order in the specification's words:
  \<^verbatim>\<open>floor(min(config.max_notional, global_default_cap) / current_price)\<close>.
\<close>

definition spec_buy_quantity :: "rat \<Rightarrow> rat \<Rightarrow> rat \<Rightarrow> int" where
  "spec_buy_quantity max_notional global_default_cap current_price =
     \<lfloor>min max_notional global_default_cap / current_price\<rfloor>"



section \<open>Example environments\<close>

definition w_init :: world where
  "w_init = \<lparr>clock = 0, trades = [], portfolio_positions = Map.empty, submitted = [], log = [], calls = []\<rparr>"

definition cache_x :: redis where
  "cache_x =
     \<lparr>redis_keys = (\<lambda>p. if p = ''sentiment:X:A:*'' then Inr [''a1'', ''a2'']
                        else if p = ''sentiment:X:C:*'' then Inr [''c1'']
                        else Inr []),
      redis_hgetall = (\<lambda>k. if k = ''a1'' then Inr [(''sentiment_score'', Number (8 / 10))]
                           else if k = ''a2'' then Inr [(''sentiment_score'', Number (6 / 10))]
                           else if k = ''c1'' then Inr [(''sentiment_score'', Number (5 / 10))]
                           else Inr [])\<rparr>"

definition weights_x :: "(source \<times> rat) list" where
  "weights_x = [(''A'', 4 / 10), (''B'', 3 / 10), (''C'', 3 / 10)]"

definition doc_x :: trading_doc where
  "doc_x = \<lparr>sentiment_weights = None,
            symbols = Some [(''X'', \<lparr>sc_weights = Some weights_x, sc_sentiment_threshold = Some (6 / 10),
                                   sc_max_position_size = None, sc_other_keys = []\<rparr>)]\<rparr>"

definition env_x :: env where
  "env_x = \<lparr>config = \<lparr>cfg_max_position_size = 10000, cfg_sentiment_threshold = 6 / 10\<rparr>,
     config_file = Some doc_x, redis_client = Some cache_x, alpaca_api = None, postgres_conn = None,
     ticker_price = (\<lambda>n s. Inr 100)\<rparr>"

definition db_unique :: postgres where
  "db_unique = \<lparr>db_error = (\<lambda>n. None), trades_unique_order_id = True\<rparr>"

definition env_db :: env where
  "env_db = \<lparr>config = \<lparr>cfg_max_position_size = 10000, cfg_sentiment_threshold = 6 / 10\<rparr>,
     config_file = None, redis_client = None, alpaca_api = None, postgres_conn = Some db_unique,
     ticker_price = (\<lambda>n s. Inr 100)\<rparr>"

definition api_ok :: alpaca where
  "api_ok =
     \<lparr>submit_order = (\<lambda>n req. Inr \<lparr>order_id = ''o1'', order_status = ''accepted''\<rparr>),
      get_order = (\<lambda>n oid. Inr \<lparr>order_id = oid, order_status = ''filled''\<rparr>),
      list_positions = (\<lambda>n. Inr [])\<rparr>"

definition api_rejecting :: alpaca where
  "api_rejecting =
     \<lparr>submit_order = (\<lambda>n req. Inl (Error ''order rejected'')),
      get_order = (\<lambda>n oid. Inr \<lparr>order_id = oid, order_status = ''filled''\<rparr>),
      list_positions = (\<lambda>n. Inr [])\<rparr>"

definition db_down :: postgres where
  "db_down = \<lparr>db_error = (\<lambda>n. Some (Error ''connection lost'')), trades_unique_order_id = True\<rparr>"

definition env_trade :: env where
  "env_trade = \<lparr>config = \<lparr>cfg_max_position_size = 10000, cfg_sentiment_threshold = 6 / 10\<rparr>,
     config_file = Some doc_x, redis_client = Some cache_x, alpaca_api = Some api_ok,
     postgres_conn = Some db_unique, ticker_price = (\<lambda>n s. Inr 100)\<rparr>"

definition cache_empty :: redis where
  "cache_empty = \<lparr>redis_keys = (\<lambda>p. Inr []), redis_hgetall = (\<lambda>k. Inr [])\<rparr>"

definition doc_cap :: trading_doc where
  "doc_cap = \<lparr>sentiment_weights = None,
            symbols = Some [(''X'', \<lparr>sc_weights = Some weights_x, sc_sentiment_threshold = Some (6 / 10),
                                   sc_max_position_size = Some 20000, sc_other_keys = []\<rparr>)]\<rparr>"

definition env_cap :: env where
  "env_cap = env_trade\<lparr>config_file := Some doc_cap\<rparr>"

definition env_price :: env where
  "env_price = env_trade\<lparr>ticker_price := (\<lambda>n s. Inr (33334 / 100))\<rparr>"

definition doc_two :: trading_doc where
  "doc_two = \<lparr>sentiment_weights = None,
     symbols = Some [(''X'', \<lparr>sc_weights = Some weights_x, sc_sentiment_threshold = None,
                            sc_max_position_size = None, sc_other_keys = []\<rparr>),
                     (''Y'', \<lparr>sc_weights = Some weights_x, sc_sentiment_threshold = None,
                            sc_max_position_size = None, sc_other_keys = []\<rparr>)]\<rparr>"

definition env_two :: env where
  "env_two = env_trade\<lparr>config_file := Some doc_two,
                        ticker_price := (\<lambda>n s. Inl (Error ''price feed down''))\<rparr>"




section \<open>Properties\<close>

subsection \<open>Control flow and the world\<close>

lemma ret_apply [simp]: "ret a w = (Inr a, w)"
  by (simp add: ret_def)

lemma logger_kw_raises [simp]: "logger_kw msg w = (Inl unexpected_keyword, w)"
  by (simp add: logger_kw_def)

lemma seq_logger_kw [simp]: "seq (logger_kw msg) f w = (Inl unexpected_keyword, w)"
  by (simp add: seq_def)

lemma seq_logger [simp]: "seq (logger msg) f w = f () (w\<lparr>log := log w @ [msg]\<rparr>)"
  by (simp add: seq_def logger_def)

lemma seq_Inl: "m w = (Inl x, w1) \<Longrightarrow> seq m f w = (Inl x, w1)"
  by (simp add: seq_def)

lemma seq_Inr: "m w = (Inr a, w1) \<Longrightarrow> seq m f w = f a w1"
  by (simp add: seq_def)

lemma try_except_Inl: "m w = (Inl x, w1) \<Longrightarrow> try_except m h w = h x w1"
  by (simp add: try_except_def)

lemma try_except_Inr: "m w = (Inr a, w1) \<Longrightarrow> try_except m h w = (Inr a, w1)"
  by (simp add: try_except_def)

lemma tick_fields [simp]:
  "clock (tick w) = Suc (clock w)" "submitted (tick w) = submitted w"
  "log (tick w) = log w" "calls (tick w) = calls w" "trades (tick w) = trades w"
  "portfolio_positions (tick w) = portfolio_positions w"
  by (simp_all add: tick_def)

lemma enter_fields [simp]:
  "clock (enter c w) = clock w" "submitted (enter c w) = submitted w"
  "log (enter c w) = log w" "calls (enter c w) = calls w @ [c]"
  "portfolio_positions (enter c w) = portfolio_positions w" "trades (enter c w) = trades w"
  by (simp_all add: enter_def)

lemma trade_count_tick [simp]: "trade_count oid (tick w) = trade_count oid w"
  by (simp add: trade_count_def)

lemma load_trading_config_eq:
  "load_trading_config e w =
     (case config_file e of Some d \<Rightarrow> (Inr d, w) | None \<Rightarrow> (Inl unexpected_keyword, w))"
  by (simp add: load_trading_config_def split: option.splits)

subsection \<open>The trade log\<close>

lemma insert_trade_fields [simp]:
  "submitted (snd (insert_trade db t w)) = submitted w"
  "calls (snd (insert_trade db t w)) = calls w"
  "log (snd (insert_trade db t w)) = log w"
  "clock (snd (insert_trade db t w)) = Suc (clock w)"
  by (simp_all add: insert_trade_def split: option.splits)

text \<open>
  With a database connection \<open>store_trade\<close> always raises: after a successful insert
  the success message is logged with keyword fields, after a failed one the handler
  logs the same way.
\<close>

lemma store_trade_eq:
  "store_trade e symbol side quantity price total_amount s oid w =
     (case postgres_conn e of
        None \<Rightarrow> (Inr (), w)
      | Some db \<Rightarrow>
          (Inl unexpected_keyword,
           snd (insert_trade db
                  \<lparr>tr_symbol = symbol, tr_side = side, tr_quantity = quantity, tr_price = price,
                   tr_total_amount = total_amount, tr_sentiment_score = s,
                   alpaca_order_id = oid, tr_status = ''FILLED''\<rparr> w)))"
  by (simp add: store_trade_def store_trade_body_def try_except_def seq_def
      split: option.splits prod.splits sum.splits)

lemma store_trade_raises:
  "postgres_conn e = Some db \<Longrightarrow>
   fst (store_trade e symbol side quantity price total_amount s oid w) = Inl unexpected_keyword"
  by (simp add: store_trade_eq)

lemma trade_count_pos: "trade_count oid w > 0 \<longleftrightarrow> oid \<in> alpaca_order_id ` set (trades w)"
  by (auto simp: trade_count_def filter_empty_conv image_iff)

text \<open>
  The row count: a table that is unique on the order id keeps one row for the id over
  two writes; the rejection of the second insert is the table's, not the code's.
\<close>

lemma store_trade_existing:
  assumes "postgres_conn e = Some db" "trades_unique_order_id db"
    and "oid \<in> alpaca_order_id ` set (trades w)"
  shows "trades (snd (store_trade e s sd q p t sc oid w)) = trades w"
  using assms
  by (auto simp: store_trade_eq insert_trade_def split: option.splits)

lemma store_trade_fresh:
  assumes "postgres_conn e = Some db" "db_error db (clock w) = None"
    and "oid \<notin> alpaca_order_id ` set (trades w)"
  shows "trade_count oid (snd (store_trade e s sd q p t sc oid w)) = 1"
  using assms
  by (auto simp: store_trade_eq insert_trade_def trade_count_def filter_empty_conv image_iff
      split: option.splits)

text \<open>
  C1, the code at a failing input: two writes of the same order id, with a database
  connection and a table that is unique on the order id. Both calls raise
  \<^verbatim>\<open>TypeError\<close>: the first after its row is committed, the second from the handler of
  the rejected insert. One row is left.
\<close>

theorem store_trade_twice_raises:
  "fst (store_trade env_db ''AAPL'' ''BUY'' 5 100 500 None ''o1'' w_init) = Inl unexpected_keyword
   \<and> trade_count ''o1'' (snd (store_trade env_db ''AAPL'' ''BUY'' 5 100 500 None ''o1'' w_init)) = 1
   \<and> fst (store_trade env_db ''AAPL'' ''BUY'' 5 100 500 None ''o1''
            (snd (store_trade env_db ''AAPL'' ''BUY'' 5 100 500 None ''o1'' w_init)))
       = Inl unexpected_keyword
   \<and> trade_count ''o1''
        (snd (store_trade env_db ''AAPL'' ''BUY'' 5 100 500 None ''o1''
               (snd (store_trade env_db ''AAPL'' ''BUY'' 5 100 500 None ''o1'' w_init)))) = 1"
  by (simp add: store_trade_eq insert_trade_def env_db_def db_unique_def w_init_def tick_def
      trade_count_def)

text \<open>
  Without the constraint on the table the same two calls leave two rows: the statement
  is a plain insert.
\<close>

lemma store_trade_without_constraint:
  "trade_count ''o1''
     (snd (store_trade (env_db\<lparr>postgres_conn := Some (db_unique\<lparr>trades_unique_order_id := False\<rparr>)\<rparr>)
             ''AAPL'' ''BUY'' 5 100 500 None ''o1''
        (snd (store_trade (env_db\<lparr>postgres_conn := Some (db_unique\<lparr>trades_unique_order_id := False\<rparr>)\<rparr>)
                ''AAPL'' ''BUY'' 5 100 500 None ''o1'' w_init)))) = 2"
  by (simp add: store_trade_eq insert_trade_def env_db_def db_unique_def w_init_def tick_def
      trade_count_def)

subsection \<open>Aggregation\<close>

lemma collect_scores_ok:
  "list_all (\<lambda>k. case redis_hgetall r k of Inl x \<Rightarrow> False | Inr en \<Rightarrow> True) ks \<Longrightarrow>
   collect_scores r ks acc =
     Inr (acc @ List.map_filter (\<lambda>k. case redis_hgetall r k of Inl x \<Rightarrow> None | Inr en \<Rightarrow> entry_score en) ks)"
proof (induction ks arbitrary: acc)
  case Nil
  then show ?case by (simp add: map_filter_simps)
next
  case (Cons k ks)
  then show ?case
    by (auto simp: map_filter_simps entry_score_def split: sum.splits option.splits)
qed

lemma collect_scores_result:
  "collect_scores r ks acc = Inr xs \<Longrightarrow>
   xs = acc @ List.map_filter (\<lambda>k. case redis_hgetall r k of Inl x \<Rightarrow> None | Inr en \<Rightarrow> entry_score en) ks"
proof (induction ks arbitrary: acc)
  case Nil
  then show ?case by (simp add: map_filter_simps)
next
  case (Cons k ks)
  from Cons.prems show ?case
    by (auto simp: map_filter_simps entry_score_def split: sum.splits option.splits
        dest!: Cons.IH)
qed

lemma accumulate_ok:
  "cache_answers r symbol ws \<Longrightarrow>
   accumulate r symbol ws (a, b, n) =
     Inr (a + (\<Sum>(weight, obs) \<leftarrow> contributing (observed r symbol ws). mean obs * weight),
          b + (\<Sum>(weight, obs) \<leftarrow> contributing (observed r symbol ws). weight),
          n + length (contributing (observed r symbol ws)))"
proof (induction ws arbitrary: a b n)
  case Nil
  then show ?case by (simp add: contributing_def observed_def)
next
  case (Cons sw ws)
  obtain source weight where sw: "sw = (source, weight)" by (cases sw)
  from Cons.prems have rest: "cache_answers r symbol ws"
    by (simp add: cache_answers_def)
  from Cons.prems sw obtain keys where
    keys: "redis_keys r (key_pattern symbol source) = Inr keys" and
    ents: "list_all (\<lambda>k. case redis_hgetall r k of Inl x \<Rightarrow> False | Inr en \<Rightarrow> True) (take 50 keys)"
    by (auto simp: cache_answers_def split: sum.splits)
  have obs: "source_observations r symbol source =
      List.map_filter (\<lambda>k. case redis_hgetall r k of Inl x \<Rightarrow> None | Inr en \<Rightarrow> entry_score en) (take 50 keys)"
    by (simp add: source_observations_def keys)
  have cs: "collect_scores r (take 50 keys) [] = Inr (source_observations r symbol source)"
    using collect_scores_ok [OF ents, of "[]"] obs by simp
  have obs_nil: "keys = [] \<Longrightarrow> source_observations r symbol source = []"
    by (simp add: obs map_filter_simps)
  show ?case
  proof (cases "source_observations r symbol source = []")
    case True
    then show ?thesis
      using Cons.IH [OF rest, of a b n] keys cs sw
      by (simp add: contributing_def observed_def)
  next
    case False
    then have "keys \<noteq> []" using obs_nil by blast
    then show ?thesis
      using Cons.IH [OF rest, of "a + mean (source_observations r symbol source) * weight" "b + weight" "Suc n"]
        keys cs sw False
      by (simp add: contributing_def observed_def add.assoc)
  qed
qed

lemma accumulate_no_observation:
  "\<forall>(source, weight) \<in> set ws. source_observations r symbol source = [] \<Longrightarrow>
   accumulate r symbol ws acc = Inr acc' \<Longrightarrow> acc' = acc"
proof (induction ws arbitrary: acc)
  case Nil
  then show ?case by simp
next
  case (Cons sw ws)
  obtain source weight where sw: "sw = (source, weight)" by (cases sw)
  obtain a b n where acc: "acc = (a, b, n)" by (cases acc)
  from Cons.prems(1) sw have none: "source_observations r symbol source = []"
    and rest: "\<forall>(source, weight) \<in> set ws. source_observations r symbol source = []"
    by auto
  from Cons.prems(2) sw acc obtain keys where
    keys: "redis_keys r (key_pattern symbol source) = Inr keys"
    by (auto split: sum.splits)
  show ?case
  proof (cases "keys = []")
    case True
    then show ?thesis using Cons.IH [OF rest] Cons.prems(2) sw acc keys by simp
  next
    case False
    with Cons.prems(2) sw acc keys obtain xs where
      xs: "collect_scores r (take 50 keys) [] = Inr xs"
      by (auto split: sum.splits)
    from collect_scores_result [OF xs] none keys have "xs = []"
      by (simp add: source_observations_def)
    then show ?thesis using Cons.IH [OF rest] Cons.prems(2) sw acc keys xs False by simp
  qed
qed

lemma sum_list_weights_pos:
  fixes xs :: "(rat \<times> rat list) list"
  assumes "\<forall>(weight, obs) \<in> set xs. 0 \<le> weight" and "\<exists>(weight, obs) \<in> set xs. 0 < weight \<and> obs \<noteq> []"
  shows "0 < (\<Sum>(weight, obs) \<leftarrow> contributing xs. weight)"
  using assms
proof (induction xs)
  case Nil
  then show ?case by simp
next
  case (Cons x xs)
  obtain weight obs where x: "x = (weight, obs)" by (cases x)
  have nonneg: "0 \<le> (\<Sum>(weight, obs) \<leftarrow> contributing xs. weight)"
    using Cons.prems(1) by (intro sum_list_nonneg) (auto simp: contributing_def)
  show ?case
  proof (cases "0 < weight \<and> obs \<noteq> []")
    case True
    then show ?thesis using nonneg x by (simp add: contributing_def)
  next
    case False
    with Cons.prems x have "\<exists>(weight, obs) \<in> set xs. 0 < weight \<and> obs \<noteq> []" by auto
    moreover from Cons.prems have "\<forall>(weight, obs) \<in> set xs. 0 \<le> weight" by auto
    ultimately have "0 < (\<Sum>(weight, obs) \<leftarrow> contributing xs. weight)" using Cons.IH by blast
    moreover from Cons.prems x have "0 \<le> weight" by auto
    ultimately show ?thesis using x by (simp add: contributing_def)
  qed
qed


lemma length_map_filter_le: "length (List.map_filter f xs) \<le> length xs"
  by (simp add: map_filter_def)

lemma source_observations_length: "length (source_observations r symbol source) \<le> 50"
proof (cases "redis_keys r (key_pattern symbol source)")
  case (Inl x)
  then show ?thesis by (simp add: source_observations_def)
next
  case (Inr keys)
  have "length (take 50 keys) \<le> 50" by simp
  then have "length (List.map_filter f (take 50 keys)) \<le> 50" for f :: "string \<Rightarrow> rat option"
    by (rule order_trans [OF length_map_filter_le])
  then show ?thesis using Inr by (simp add: source_observations_def)
qed

lemma obs_x:
  "source_observations cache_x ''X'' ''A'' = [8/10, 6/10]"
  "source_observations cache_x ''X'' ''B'' = []"
  "source_observations cache_x ''X'' ''C'' = [5/10]"
  by (simp_all add: source_observations_def cache_x_def key_pattern_def map_filter_simps entry_score_def)

text \<open>
  \<open>aggregate_sentiment\<close> path by path. It returns \<open>None\<close> where the cache is absent
  or the total weight is not positive; everywhere else a logger call with keyword fields
  raises, in the body or in the handler.
\<close>

lemma aggregate_sentiment_eq:
  "aggregate_sentiment e symbol w =
     (case config_file e of
        None \<Rightarrow> (Inl unexpected_keyword, enter (Aggregate symbol) w)
      | Some d \<Rightarrow>
          if is_empty_config (symbol_config_of d symbol) then
            (Inl unexpected_keyword, enter (Aggregate symbol) w)
          else
            (case redis_client e of
               None \<Rightarrow> (Inr None, enter (Aggregate symbol) w)
             | Some r \<Rightarrow>
                 (case accumulate r symbol (weights_of d (symbol_config_of d symbol)) (0, 0, 0) of
                    Inl x \<Rightarrow> (Inl unexpected_keyword, enter (Aggregate symbol) w)
                  | Inr (total_weighted_score, total_weight, source_count) \<Rightarrow>
                      if total_weight > 0 then (Inl unexpected_keyword, enter (Aggregate symbol) w)
                      else (Inr None, enter (Aggregate symbol) w))))"
  by (simp add: aggregate_sentiment_def aggregate_sentiment_body_def score_sources_def
      try_except_def seq_def load_trading_config_eq
      split: option.splits sum.splits prod.splits)

lemma snd_aggregate_sentiment [simp]:
  "snd (aggregate_sentiment e symbol w) = enter (Aggregate symbol) w"
  by (simp add: aggregate_sentiment_eq split: option.splits sum.splits prod.splits)

lemma aggregate_sentiment_never_scores:
  "fst (aggregate_sentiment e symbol w) \<noteq> Inr (Some v)"
  by (simp add: aggregate_sentiment_eq split: option.splits sum.splits prod.splits)

text \<open>
  Where the specification's weighted score is defined, the accumulators of the loop hold
  it, and the call that logs it raises.
\<close>

lemma aggregate_sentiment_weighted_score_raises:
  assumes cfg: "config_file e = Some d"
    and ne: "\<not> is_empty_config (symbol_config_of d symbol)"
    and ws: "ws = weights_of d (symbol_config_of d symbol)"
    and redis: "redis_client e = Some r"
    and answers: "cache_answers r symbol ws"
    and nonneg: "\<forall>(source, weight) \<in> set ws. 0 \<le> weight"
    and some: "\<exists>(source, weight) \<in> set ws. 0 < weight \<and> source_observations r symbol source \<noteq> []"
  shows "\<exists>total_weighted_score total_weight source_count.
           accumulate r symbol ws (0, 0, 0) = Inr (total_weighted_score, total_weight, source_count)
           \<and> total_weighted_score / total_weight = weighted_score (observed r symbol ws)
           \<and> fst (aggregate_sentiment e symbol w) = Inl unexpected_keyword"
proof -
  have pos: "0 < (\<Sum>(weight, obs) \<leftarrow> contributing (observed r symbol ws). weight)"
  proof (rule sum_list_weights_pos)
    show "\<forall>(weight, obs) \<in> set (observed r symbol ws). 0 \<le> weight"
      using nonneg by (auto simp: observed_def)
    show "\<exists>(weight, obs) \<in> set (observed r symbol ws). 0 < weight \<and> obs \<noteq> []"
      using some by (force simp: observed_def)
  qed
  have acc: "accumulate r symbol ws (0, 0, 0) =
      Inr ((\<Sum>(weight, obs) \<leftarrow> contributing (observed r symbol ws). mean obs * weight),
           (\<Sum>(weight, obs) \<leftarrow> contributing (observed r symbol ws). weight),
           length (contributing (observed r symbol ws)))"
    using accumulate_ok [OF answers, of 0 0 0] by simp
  have "fst (aggregate_sentiment e symbol w) = Inl unexpected_keyword"
    using cfg ne ws redis acc pos by (simp add: aggregate_sentiment_eq)
  then show ?thesis using acc by (simp add: weighted_score_def)
qed

text \<open>
  C2, the code at a failing input: weights A 0.4, B 0.3, C 0.3 and observations
  A = 0.8, 0.6, B none, C = 0.5. The loop accumulates 0.43 and 0.7, whose quotient is the
  specification's weighted score 43/70; the call does not return it, it raises
  \<^verbatim>\<open>TypeError\<close>.
\<close>

theorem aggregate_sentiment_raises_on_score:
  "accumulate cache_x ''X'' weights_x (0, 0, 0) = Inr (43 / 100, 7 / 10, 2)
   \<and> weighted_score (observed cache_x ''X'' weights_x) = 43 / 70
   \<and> fst (aggregate_sentiment env_x ''X'' w_init) = Inl unexpected_keyword"
proof -
  have acc: "accumulate cache_x ''X'' weights_x (0, 0, 0) = Inr (43 / 100, 7 / 10, 2)"
    by (simp add: weights_x_def cache_x_def key_pattern_def mean_def)
  have "weighted_score (observed cache_x ''X'' weights_x) = 43 / 70"
    by (simp add: weighted_score_def observed_def weights_x_def obs_x contributing_def mean_def)
  moreover have "fst (aggregate_sentiment env_x ''X'' w_init) = Inl unexpected_keyword"
    using acc
    by (simp add: aggregate_sentiment_eq env_x_def doc_x_def symbol_config_of_def
        is_empty_config_def weights_of_def)
  ultimately show ?thesis using acc by simp
qed

text \<open>
  C3. For an instrument with a configuration entry, when the cache is absent, or answers
  and no configured source has any observation, \<open>aggregate_sentiment\<close> returns
  \<open>None\<close>, not a score: the total weight is 0 and the guard on it decides. (Without an
  entry, with an unreadable configuration or a failing cache the call does not return:
  its logger calls raise.)
\<close>

theorem aggregate_sentiment_no_signal:
  assumes cfg: "config_file e = Some d"
    and ne: "\<not> is_empty_config (symbol_config_of d symbol)"
    and ws: "ws = weights_of d (symbol_config_of d symbol)"
    and none: "\<forall>r. redis_client e = Some r \<longrightarrow>
                 cache_answers r symbol ws \<and>
                 (\<forall>(source, weight) \<in> set ws. source_observations r symbol source = [])"
  shows "fst (aggregate_sentiment e symbol w) = Inr None"
proof (cases "redis_client e")
  case None
  then show ?thesis using cfg ne by (simp add: aggregate_sentiment_eq)
next
  case (Some r)
  with none have answers: "cache_answers r symbol ws"
    and no: "\<forall>(source, weight) \<in> set ws. source_observations r symbol source = []"
    by blast+
  have "contributing (observed r symbol ws) = []"
    using no by (auto simp: contributing_def observed_def filter_empty_conv)
  then have "accumulate r symbol ws (0, 0, 0) = Inr (0, 0, 0)"
    using accumulate_ok [OF answers, of 0 0 0] by simp
  then show ?thesis using cfg ne ws Some by (simp add: aggregate_sentiment_eq)
qed

theorem aggregate_sentiment_no_signal_witness:
  "fst (aggregate_sentiment (env_x\<lparr>redis_client := Some cache_empty\<rparr>) ''X'' w_init) = Inr None"
proof -
  let ?e = "env_x\<lparr>redis_client := Some cache_empty\<rparr>"
  have cfg: "config_file ?e = Some doc_x" by (simp add: env_x_def)
  have ne: "\<not> is_empty_config (symbol_config_of doc_x ''X'')"
    by (simp add: doc_x_def symbol_config_of_def is_empty_config_def)
  have ws: "weights_x = weights_of doc_x (symbol_config_of doc_x ''X'')"
    by (simp add: doc_x_def symbol_config_of_def weights_of_def)
  have none: "\<forall>r. redis_client ?e = Some r \<longrightarrow>
      cache_answers r ''X'' weights_x \<and>
      (\<forall>(source, weight) \<in> set weights_x. source_observations r ''X'' source = [])"
    by (simp add: weights_x_def source_observations_def cache_answers_def cache_empty_def
        map_filter_simps)
  show ?thesis
    using aggregate_sentiment_no_signal [OF cfg ne ws none] by simp
qed

subsection \<open>Order execution\<close>

lemma lower_buy: "lower ''BUY'' = ''buy''"
  by code_simp

lemma lower_sell: "lower ''SELL'' = ''sell''"
  by code_simp

lemma store_trade_fields [simp]:
  "submitted (snd (store_trade e sy sd q p t sc oid w)) = submitted w"
  "calls (snd (store_trade e sy sd q p t sc oid w)) = calls w"
  "log (snd (store_trade e sy sd q p t sc oid w)) = log w"
  by (simp_all add: store_trade_eq split: option.splits)

text \<open>
  Once the order is sent, \<open>execute_trade\<close> cannot return a status: a failing request
  raises, and after \<open>store_trade\<close> the success message is logged with keyword fields.
\<close>

lemma submit_and_store_eq:
  "submit_and_store e api symbol side quantity current_price total_amount s w2 =
     (case submit_order api (clock w2)
             \<lparr>req_symbol = symbol, req_qty = quantity, req_side = lower side\<rparr> of
        Inl x \<Rightarrow>
          (Inl x, tick (w2\<lparr>submitted := submitted w2 @
                       [\<lparr>req_symbol = symbol, req_qty = quantity, req_side = lower side\<rparr>]\<rparr>))
      | Inr ord \<Rightarrow>
          (case get_order api (Suc (clock w2)) (order_id ord) of
             Inl x \<Rightarrow>
               (Inl x, tick (tick (w2\<lparr>submitted := submitted w2 @
                       [\<lparr>req_symbol = symbol, req_qty = quantity, req_side = lower side\<rparr>]\<rparr>)))
           | Inr status \<Rightarrow>
               (Inl unexpected_keyword,
                snd (store_trade e symbol side quantity current_price total_amount s (order_id ord)
                       (tick (tick (w2\<lparr>submitted := submitted w2 @
                          [\<lparr>req_symbol = symbol, req_qty = quantity,
                            req_side = lower side\<rparr>]\<rparr>)))))))"
  by (simp add: submit_and_store_def Let_def seq_def store_trade_eq
      split: sum.splits option.splits prod.splits)

lemma execute_trade_body_eq:
  "execute_trade_body e api symbol side quantity s w =
     (case ticker_price e (clock w) symbol of
        Inl x \<Rightarrow> (Inl x, tick w)
      | Inr current_price \<Rightarrow>
          if current_price = 0 then (Inl unexpected_keyword, tick w)
          else
            (case config_file e of
               None \<Rightarrow> (Inl unexpected_keyword, tick w)
             | Some d \<Rightarrow>
                 if of_int quantity * current_price >
                      max_position_size_of e (symbol_config_of d symbol)
                 then (Inl unexpected_keyword, tick w)
                 else submit_and_store e api symbol side quantity current_price
                        (of_int quantity * current_price) s (tick w)))"
  by (simp add: execute_trade_body_def seq_def load_trading_config_eq
      split: sum.splits option.splits)

lemma execute_trade_body_raises:
  "\<exists>x. fst (execute_trade_body e api symbol side quantity s w) = Inl x"
  by (simp add: execute_trade_body_eq submit_and_store_eq split: sum.splits option.splits)

lemma execute_trade_eq:
  "execute_trade e symbol side quantity s w =
     (case alpaca_api e of
        None \<Rightarrow>
          (Inr None,
           (enter (Execute symbol side quantity) w)
             \<lparr>log := log w @ [''Alpaca API not available'']\<rparr>)
      | Some api \<Rightarrow>
          (Inl unexpected_keyword,
           snd (execute_trade_body e api symbol side quantity s
                  (enter (Execute symbol side quantity) w))))"
proof (cases "alpaca_api e")
  case None
  then show ?thesis by (simp add: execute_trade_def)
next
  case (Some api)
  obtain x where "fst (execute_trade_body e api symbol side quantity s
      (enter (Execute symbol side quantity) w)) = Inl x"
    using execute_trade_body_raises by blast
  then show ?thesis using Some
    by (cases "execute_trade_body e api symbol side quantity s
                 (enter (Execute symbol side quantity) w)")
       (simp add: execute_trade_def try_except_def)
qed

lemma execute_trade_never_returns_status:
  "fst (execute_trade e symbol side quantity s w) \<noteq> Inr (Some status)"
  by (simp add: execute_trade_eq split: option.splits)

lemma calls_execute_trade_body:
  "calls (snd (execute_trade_body e api symbol side quantity s w)) = calls w"
  by (simp add: execute_trade_body_eq submit_and_store_eq split: sum.splits option.splits)

lemma calls_execute_trade [simp]:
  "calls (snd (execute_trade e symbol side quantity s w)) = calls w @ [Execute symbol side quantity]"
  by (simp add: execute_trade_eq calls_execute_trade_body split: option.splits)

text \<open>
  C6, what the code does. With a brokerage client, the price it has just fetched and a
  notional above the cap, \<open>execute_trade\<close> sends no request and writes no trade; it
  does not return \<open>None\<close>: the warning is logged with keyword fields, and so is the
  error in the handler, whose \<^verbatim>\<open>TypeError\<close> leaves the function.
\<close>

theorem execute_trade_over_cap_raises:
  assumes api: "alpaca_api e = Some api"
    and cfg: "config_file e = Some d"
    and price: "ticker_price e (clock w) symbol = Inr current_price"
    and over: "of_int quantity * current_price > max_position_size_of e (symbol_config_of d symbol)"
  shows "fst (execute_trade e symbol side quantity s w) = Inl unexpected_keyword
       \<and> submitted (snd (execute_trade e symbol side quantity s w)) = submitted w
       \<and> trades (snd (execute_trade e symbol side quantity s w)) = trades w"
  using assms by (simp add: execute_trade_eq execute_trade_body_eq)

theorem execute_trade_over_cap_raises_witness:
  "fst (execute_trade env_trade ''X'' ''BUY'' 101 None w_init) = Inl unexpected_keyword
   \<and> submitted (snd (execute_trade env_trade ''X'' ''BUY'' 101 None w_init)) = []
   \<and> trades (snd (execute_trade env_trade ''X'' ''BUY'' 101 None w_init)) = []"
proof -
  have api: "alpaca_api env_trade = Some api_ok" by (simp add: env_trade_def)
  have cfg: "config_file env_trade = Some doc_x" by (simp add: env_trade_def)
  have price: "ticker_price env_trade (clock w_init) ''X'' = Inr 100"
    by (simp add: env_trade_def)
  have over: "of_int 101 * 100 > max_position_size_of env_trade (symbol_config_of doc_x ''X'')"
    by (simp add: env_trade_def doc_x_def symbol_config_of_def max_position_size_of_def)
  show ?thesis
    using execute_trade_over_cap_raises [OF api cfg price over, of "''BUY''" None]
    by (simp add: w_init_def)
qed

text \<open>
  C7, what the code does. When \<open>submit_order\<close> raises, no trade is written and one
  request has gone to the brokerage; the failure is not logged and the call does not
  return: the handler's logger call raises \<^verbatim>\<open>TypeError\<close>, which leaves
  \<open>execute_trade\<close>.
\<close>

theorem execute_trade_submission_failure_raises:
  assumes api: "alpaca_api e = Some api"
    and cfg: "config_file e = Some d"
    and price: "ticker_price e (clock w) symbol = Inr current_price"
    and nonzero: "current_price \<noteq> 0"
    and within: "of_int quantity * current_price \<le>
                 max_position_size_of e (symbol_config_of d symbol)"
    and fails: "submit_order api (Suc (clock w))
                  \<lparr>req_symbol = symbol, req_qty = quantity, req_side = lower side\<rparr> = Inl x"
  shows "fst (execute_trade e symbol side quantity s w) = Inl unexpected_keyword
       \<and> trades (snd (execute_trade e symbol side quantity s w)) = trades w
       \<and> submitted (snd (execute_trade e symbol side quantity s w)) =
           submitted w @ [\<lparr>req_symbol = symbol, req_qty = quantity, req_side = lower side\<rparr>]
       \<and> log (snd (execute_trade e symbol side quantity s w)) = log w"
  using assms by (simp add: execute_trade_eq execute_trade_body_eq submit_and_store_eq)

theorem execute_trade_submission_failure_raises_witness:
  "fst (execute_trade (env_trade\<lparr>alpaca_api := Some api_rejecting\<rparr>) ''X'' ''BUY'' 50 None w_init)
     = Inl unexpected_keyword
   \<and> trades (snd (execute_trade (env_trade\<lparr>alpaca_api := Some api_rejecting\<rparr>) ''X'' ''BUY'' 50 None w_init)) = []
   \<and> length (submitted (snd (execute_trade (env_trade\<lparr>alpaca_api := Some api_rejecting\<rparr>) ''X'' ''BUY'' 50 None w_init))) = 1
   \<and> log (snd (execute_trade (env_trade\<lparr>alpaca_api := Some api_rejecting\<rparr>) ''X'' ''BUY'' 50 None w_init)) = []"
proof -
  let ?e = "env_trade\<lparr>alpaca_api := Some api_rejecting\<rparr>"
  have api: "alpaca_api ?e = Some api_rejecting" by simp
  have cfg: "config_file ?e = Some doc_x" by (simp add: env_trade_def)
  have price: "ticker_price ?e (clock w_init) ''X'' = Inr 100"
    by (simp add: env_trade_def)
  have nonzero: "(100::rat) \<noteq> 0" by simp
  have within: "of_int 50 * 100 \<le> max_position_size_of ?e (symbol_config_of doc_x ''X'')"
    by (simp add: env_trade_def doc_x_def symbol_config_of_def max_position_size_of_def)
  have fails: "submit_order api_rejecting (Suc (clock w_init))
      \<lparr>req_symbol = ''X'', req_qty = 50, req_side = lower ''BUY''\<rparr> = Inl (Error ''order rejected'')"
    by (simp add: api_rejecting_def)
  show ?thesis
    using execute_trade_submission_failure_raises [OF api cfg price nonzero within fails, of None]
    by (simp add: w_init_def)
qed

text \<open>
  C10, what the code does. When the brokerage accepts the order and answers the status
  request but the insert into the trade log fails (a database error, or a row with the
  same order id in a unique table), no trade is written, and \<open>execute_trade\<close> does not
  return the order status: the handler of \<open>store_trade\<close> logs with keyword fields, its
  \<^verbatim>\<open>TypeError\<close> reaches the handler of \<open>execute_trade\<close>, which raises the same way.
\<close>

theorem execute_trade_store_failure_raises:
  assumes api: "alpaca_api e = Some api"
    and cfg: "config_file e = Some d"
    and price: "ticker_price e (clock w) symbol = Inr current_price"
    and nonzero: "current_price \<noteq> 0"
    and within: "of_int quantity * current_price \<le>
                 max_position_size_of e (symbol_config_of d symbol)"
    and submit: "submit_order api (Suc (clock w))
                  \<lparr>req_symbol = symbol, req_qty = quantity, req_side = lower side\<rparr> = Inr ord"
    and status: "get_order api (Suc (Suc (clock w))) (order_id ord) = Inr status"
    and db: "postgres_conn e = Some db"
    and write_fails: "db_error db (Suc (Suc (Suc (clock w)))) = Some x
        \<or> (trades_unique_order_id db \<and> order_id ord \<in> alpaca_order_id ` set (trades w))"
  shows "fst (execute_trade e symbol side quantity s w) = Inl unexpected_keyword
       \<and> trades (snd (execute_trade e symbol side quantity s w)) = trades w"
  using assms
  by (auto simp: execute_trade_eq execute_trade_body_eq submit_and_store_eq store_trade_eq
      insert_trade_def split: option.splits)

theorem execute_trade_store_failure_raises_witness:
  "fst (execute_trade (env_trade\<lparr>postgres_conn := Some db_down\<rparr>) ''X'' ''BUY'' 50 None w_init)
     = Inl unexpected_keyword
   \<and> trades (snd (execute_trade (env_trade\<lparr>postgres_conn := Some db_down\<rparr>) ''X'' ''BUY'' 50 None w_init)) = []"
proof -
  let ?e = "env_trade\<lparr>postgres_conn := Some db_down\<rparr>"
  have api: "alpaca_api ?e = Some api_ok" by (simp add: env_trade_def)
  have cfg: "config_file ?e = Some doc_x" by (simp add: env_trade_def)
  have price: "ticker_price ?e (clock w_init) ''X'' = Inr 100"
    by (simp add: env_trade_def)
  have nonzero: "(100::rat) \<noteq> 0" by simp
  have within: "of_int 50 * 100 \<le> max_position_size_of ?e (symbol_config_of doc_x ''X'')"
    by (simp add: env_trade_def doc_x_def symbol_config_of_def max_position_size_of_def)
  have submit: "submit_order api_ok (Suc (clock w_init))
      \<lparr>req_symbol = ''X'', req_qty = 50, req_side = lower ''BUY''\<rparr>
        = Inr \<lparr>order_id = ''o1'', order_status = ''accepted''\<rparr>"
    by (simp add: api_ok_def)
  have status: "get_order api_ok (Suc (Suc (clock w_init)))
      (order_id \<lparr>order_id = ''o1'', order_status = ''accepted''\<rparr>)
        = Inr \<lparr>order_id = ''o1'', order_status = ''filled''\<rparr>"
    by (simp add: api_ok_def)
  have db: "postgres_conn ?e = Some db_down" by simp
  have write_fails: "db_error db_down (Suc (Suc (Suc (clock w_init)))) = Some (Error ''connection lost'')
      \<or> (trades_unique_order_id db_down \<and>
          order_id \<lparr>order_id = ''o1'', order_status = ''accepted''\<rparr> \<in> alpaca_order_id ` set (trades w_init))"
    by (simp add: db_down_def)
  show ?thesis
    using execute_trade_store_failure_raises [OF api cfg price nonzero within submit status db write_fails, of None]
    by (simp add: w_init_def)
qed

subsection \<open>The decision\<close>

lemma seq_execute_trade_signal:
  "seq (execute_trade e symbol side quantity s) (\<lambda>res. logger_kw msg) w =
     (Inl unexpected_keyword, snd (execute_trade e symbol side quantity s w))"
  by (simp add: seq_def execute_trade_eq split: option.splits)

text \<open>
  C5. The threshold comparisons are strict. With a threshold that is not negative, a
  score equal to the threshold or to its negation changes nothing: no price is fetched
  and \<open>execute_trade\<close> is not called. In every case the only call the decision can
  make is one \<open>execute_trade\<close>, a BUY only for a score strictly above the threshold
  and a SELL only for a score strictly below its negation.
\<close>

theorem threshold_is_strict:
  "(0 \<le> sentiment_threshold_of e (symbol_config_of config_data symbol) \<longrightarrow>
      (score = sentiment_threshold_of e (symbol_config_of config_data symbol)
       \<or> score = - sentiment_threshold_of e (symbol_config_of config_data symbol)) \<longrightarrow>
      trade_on_sentiment e config_data positions symbol score w = (Inr (), w))
   \<and> (calls (snd (trade_on_sentiment e config_data positions symbol score w)) = calls w
      \<or> (\<exists>q. calls (snd (trade_on_sentiment e config_data positions symbol score w)) =
               calls w @ [Execute symbol ''BUY'' q]
             \<and> score > sentiment_threshold_of e (symbol_config_of config_data symbol))
      \<or> (\<exists>q. calls (snd (trade_on_sentiment e config_data positions symbol score w)) =
               calls w @ [Execute symbol ''SELL'' q]
             \<and> score < - sentiment_threshold_of e (symbol_config_of config_data symbol)))"
  by (auto simp: trade_on_sentiment_def Let_def seq_execute_trade_signal
      split: sum.splits option.splits)

text \<open>
  C4, as amended. For a score strictly above the threshold and no existing position,
  with the price the oracle returns: when the price is positive and \<open>int(cap / price)\<close>
  is positive, \<open>execute_trade\<close> is called for a BUY of \<open>floor(cap / price)\<close>, where
  \<open>cap\<close> is the instrument's \<^verbatim>\<open>max_position_size\<close> when it has one and the
  process-wide default otherwise; when the price or the quantity is not positive, nothing
  is done beyond the price request.
\<close>

theorem buy_quantity:
  assumes above: "score > sentiment_threshold_of e (symbol_config_of config_data symbol)"
    and flat: "symbol \<notin> pp_symbol ` set positions"
    and price: "ticker_price e (clock w) symbol = Inr current_price"
    and cap: "cap = max_position_size_of e (symbol_config_of config_data symbol)"
  shows "if 0 < current_price \<and> 0 < python_int (cap / current_price)
         then calls (snd (trade_on_sentiment e config_data positions symbol score w)) =
                calls w @ [Execute symbol ''BUY'' \<lfloor>cap / current_price\<rfloor>]
         else snd (trade_on_sentiment e config_data positions symbol score w) = tick w"
proof -
  have "0 < python_int x \<Longrightarrow> python_int x = \<lfloor>x\<rfloor>" for x
    by (auto simp: python_int_def split: if_splits)
  then show ?thesis
    using above flat price cap
    by (auto simp: trade_on_sentiment_def Let_def seq_execute_trade_signal)
qed


text \<open>
  C4 as stated fails: an instrument whose own cap (20000) is above the process-wide
  default (10000) is sized by its own cap. At price 100 the order sent to the brokerage is
  for 200 shares, where the minimum of the two caps gives 100.
\<close>

theorem buy_quantity_counterexample:
  "sc_max_position_size (symbol_config_of doc_cap ''X'') = Some 20000
   \<and> cfg_max_position_size (config env_cap) = 10000
   \<and> ticker_price env_cap (clock w_init) ''X'' = Inr 100
   \<and> spec_buy_quantity 20000 10000 100 = 100
   \<and> submitted (snd (trade_on_sentiment env_cap doc_cap [] ''X'' (7 / 10) w_init))
       = [\<lparr>req_symbol = ''X'', req_qty = 200, req_side = ''buy''\<rparr>]"
  by (simp add: trade_on_sentiment_def seq_execute_trade_signal execute_trade_eq
      execute_trade_body_eq submit_and_store_eq
      env_cap_def env_trade_def doc_cap_def symbol_config_of_def sentiment_threshold_of_def
      max_position_size_of_def python_int_def api_ok_def w_init_def
      spec_buy_quantity_def lower_buy Let_def)

theorem buy_quantity_witness:
  "calls (snd (trade_on_sentiment env_price doc_x [] ''X'' (7 / 10) w_init))
     = [Execute ''X'' ''BUY'' 29]"
proof -
  have above: "7 / 10 > sentiment_threshold_of env_price (symbol_config_of doc_x ''X'')"
    by (simp add: sentiment_threshold_of_def symbol_config_of_def doc_x_def)
  have flat: "''X'' \<notin> pp_symbol ` set []" by simp
  have price: "ticker_price env_price (clock w_init) ''X'' = Inr (33334 / 100)"
    by (simp add: env_price_def)
  have cap: "10000 = max_position_size_of env_price (symbol_config_of doc_x ''X'')"
    by (simp add: max_position_size_of_def symbol_config_of_def doc_x_def env_price_def env_trade_def)
  have fl: "\<lfloor>10000 / (33334 / 100 :: rat)\<rfloor> = 29" by (simp add: floor_eq_iff)
  show ?thesis
    using buy_quantity [OF above flat price cap] fl
    by (simp add: python_int_def w_init_def)
qed

theorem threshold_is_strict_witness:
  "trade_on_sentiment env_trade doc_x [] ''X'' (6 / 10) w_init = (Inr (), w_init)
   \<and> calls (snd (trade_on_sentiment env_trade doc_x [] ''X'' (7 / 10) w_init)) = [Execute ''X'' ''BUY'' 100]"
proof -
  have thr: "sentiment_threshold_of env_trade (symbol_config_of doc_x ''X'') = 6 / 10"
    by (simp add: sentiment_threshold_of_def symbol_config_of_def doc_x_def)
  have "trade_on_sentiment env_trade doc_x [] ''X'' (6 / 10) w_init = (Inr (), w_init)"
    using threshold_is_strict [of env_trade doc_x "''X''" "6 / 10" "[]" w_init] thr by simp
  moreover have "calls (snd (trade_on_sentiment env_trade doc_x [] ''X'' (7 / 10) w_init)) = [Execute ''X'' ''BUY'' 100]"
    by (simp add: trade_on_sentiment_def Let_def seq_execute_trade_signal sentiment_threshold_of_def
        max_position_size_of_def symbol_config_of_def doc_x_def env_trade_def python_int_def
        w_init_def)
  ultimately show ?thesis by blast
qed

subsection \<open>The cycle\<close>

text \<open>
  One turn of the loop goes on to the next symbol only when the aggregation returned
  \<open>None\<close>. Every other outcome of the aggregation is an exception, which the handler
  of the turn catches and, logging it with keyword fields, raises anew.
\<close>

lemma process_symbol_eq:
  "process_symbol e d positions symbol w =
     (if fst (aggregate_sentiment e symbol w) = Inr None
      then (Inr (), enter (Aggregate symbol) w)
      else (Inl unexpected_keyword, enter (Aggregate symbol) w))"
proof (cases "aggregate_sentiment e symbol w")
  case (Pair res w1)
  then have w1: "w1 = enter (Aggregate symbol) w"
    using snd_aggregate_sentiment [of e symbol w] by simp
  show ?thesis
  proof (cases res)
    case (Inl x)
    then show ?thesis using Pair w1
      by (simp add: process_symbol_def process_symbol_body_def try_except_def seq_def)
  next
    case (Inr r)
    then have "r = None"
      using Pair aggregate_sentiment_never_scores [of e symbol w] by (cases r) auto
    then show ?thesis using Pair Inr w1
      by (simp add: process_symbol_def process_symbol_body_def try_except_def seq_def)
  qed
qed

text \<open>
  C8, the code at a failing input: two configured symbols, the cache holds observations
  for the first. Its aggregation raises at the log call, the handler of the turn raises,
  and so does the handler of the cycle: the second symbol is never reached and the
  reconciliation pass is not entered.
\<close>

theorem run_trading_bot_stops_at_first_failure:
  "configured_symbols doc_two = [''X'', ''Y'']
   \<and> fst (run_trading_bot env_two w_init) = Inl unexpected_keyword
   \<and> calls (snd (run_trading_bot env_two w_init)) = [Aggregate ''X'']
   \<and> log (snd (run_trading_bot env_two w_init)) = [''Running trading bot iteration'']"
proof -
  have agg: "fst (aggregate_sentiment env_two ''X'' w) = Inl unexpected_keyword" for w
    by (simp add: aggregate_sentiment_eq env_two_def env_trade_def doc_two_def
        symbol_config_of_def is_empty_config_def weights_of_def weights_x_def cache_x_def
        key_pattern_def mean_def)
  have pos: "get_portfolio_positions env_two w = (Inr [], tick w)" for w
    by (simp add: get_portfolio_positions_def try_except_def env_two_def env_trade_def
        api_ok_def)
  have syms: "configured_symbols doc_two = [''X'', ''Y'']"
    by (simp add: configured_symbols_def doc_two_def)
  have cfg: "config_file env_two = Some doc_two" by (simp add: env_two_def)
  have load: "load_trading_config env_two w = (Inr doc_two, w)" for w
    by (simp add: load_trading_config_eq cfg)
  have turn: "process_symbol env_two doc_two [] ''X'' w =
      (Inl unexpected_keyword, enter (Aggregate ''X'') w)" for w
    by (simp add: process_symbol_eq agg)
  have loop: "process_symbols env_two doc_two [] [''X'', ''Y''] w =
      (Inl unexpected_keyword, enter (Aggregate ''X'') w)" for w
    by (simp add: seq_Inl [OF turn])
  have rest: "seq (get_portfolio_positions env_two)
        (\<lambda>current_positions.
           seq (process_symbols env_two doc_two current_positions [''X'', ''Y''])
             (\<lambda>u. seq (update_portfolio_positions env_two)
                (\<lambda>u. logger ''Trading bot iteration completed''))) w =
      (Inl unexpected_keyword, enter (Aggregate ''X'') (tick w))" for w
    by (simp add: seq_Inr [OF pos] seq_Inl [OF loop])
  have body: "run_trading_bot_body env_two w =
      (Inl unexpected_keyword,
       enter (Aggregate ''X'') (tick (w\<lparr>log := log w @ [''Running trading bot iteration'']\<rparr>)))" for w
    by (simp add: run_trading_bot_body_def seq_Inr [OF load] syms rest)
  have "run_trading_bot env_two w_init =
      (Inl unexpected_keyword,
       enter (Aggregate ''X'') (tick (w_init\<lparr>log := log w_init @ [''Running trading bot iteration'']\<rparr>)))"
    by (simp add: run_trading_bot_def try_except_Inl [OF body])
  then show ?thesis using syms by (simp add: w_init_def)
qed

subsection \<open>Configuration fallback\<close>

lemma max_position_size_of_config_file [simp]:
  "max_position_size_of (e\<lparr>config_file := c\<rparr>) sc = max_position_size_of e sc"
  by (simp add: max_position_size_of_def split: option.splits)

lemma sentiment_threshold_of_config_file [simp]:
  "sentiment_threshold_of (e\<lparr>config_file := c\<rparr>) sc = sentiment_threshold_of e sc"
  by (simp add: sentiment_threshold_of_def split: option.splits)

lemma store_trade_config_file [simp]:
  "store_trade (e\<lparr>config_file := c\<rparr>) symbol side quantity p t s oid w =
   store_trade e symbol side quantity p t s oid w"
  by (simp add: store_trade_eq)

lemma submit_and_store_config_file [simp]:
  "submit_and_store (e\<lparr>config_file := c\<rparr>) api symbol side quantity p t s w =
   submit_and_store e api symbol side quantity p t s w"
  by (simp add: submit_and_store_eq cong: sum.case_cong)






end
